theory Spec2Isabelle
  imports
    Complex_Main
    "HOL-Library.Char_ord"
    "HOL-Library.List_Lexorder"
    "HOL-Library.Product_Lexorder"
    "HOL-Library.Sublist"
    "HOL-Library.Multiset"
begin

section \<open>Python values\<close>

text \<open>
  The module \<^verbatim>\<open>bel_enrichment/indra_utils.py\<close> turns INDRA statements into rows of a
  tab-separated curation sheet. Strings are byte lists (UTF-8); their lexicographic order
  (\<open>List_Lexorder\<close> over \<open>Char_ord\<close>) is the order of Python's \<^verbatim>\<open>str\<close>, since UTF-8
  keeps the order of code points. An attribute that holds \<^verbatim>\<open>None\<close> or a \<^verbatim>\<open>str\<close> is a
  \<open>string option\<close>.
\<close>

datatype pyval = PyNone | PyStr string | PyBool bool

fun truthy :: "pyval \<Rightarrow> bool" where
  "truthy PyNone = False"
| "truthy (PyStr s) = (s \<noteq> [])"
| "truthy (PyBool b) = b"

text \<open>\<^verbatim>\<open>a and b\<close> is \<^verbatim>\<open>a\<close> when \<^verbatim>\<open>a\<close> is falsy and \<^verbatim>\<open>b\<close> otherwise;
  \<^verbatim>\<open>a or b\<close> is \<^verbatim>\<open>a\<close> when \<^verbatim>\<open>a\<close> is truthy and \<^verbatim>\<open>b\<close> otherwise.\<close>

definition py_and :: "pyval \<Rightarrow> pyval \<Rightarrow> pyval" where
  "py_and a b = (if truthy a then b else a)"

definition py_or :: "pyval \<Rightarrow> pyval \<Rightarrow> pyval" where
  "py_or a b = (if truthy a then a else b)"

definition py_not_in :: "pyval \<Rightarrow> string list \<Rightarrow> pyval" where
  "py_not_in v S = PyBool (v \<notin> set (map PyStr S))"

definition of_attr :: "string option \<Rightarrow> pyval" where
  "of_attr a = (case a of None \<Rightarrow> PyNone | Some s \<Rightarrow> PyStr s)"

datatype exc = AttributeError | KeyError | OtherException string

section \<open>Data model\<close>

text \<open>
  \<^verbatim>\<open>indra.statements.Evidence\<close> and \<^verbatim>\<open>Statement\<close>: the attributes the module reads. The
  records are extensible, so every other attribute of the objects lives in the \<open>more\<close>
  part. The attribute \<^verbatim>\<open>Evidence.text\<close> is the field \<open>ev_text\<close>. A belief is a finite
  float between 0 and 1, modelled by the rational number it denotes.
\<close>

record Evidence =
  pmid :: "string option"
  ev_text :: "string option"
  source_api :: "string option"

record 'e Statement =
  uuid :: string
  belief :: rat
  evidence :: "'e Evidence_scheme list"

text \<open>
  \<^verbatim>\<open>round(x, 2)\<close> of a float gives the float nearest to the decimal with two fractional
  digits that is nearest to \<open>x\<close>, ties going to the even digit, and keeps the sign.
  \<open>Float2 neg k\<close> stands for that float: the one nearest to \<open>k / 100\<close>, negated when \<open>neg\<close>.
\<close>

datatype float2 = Float2 bool nat

definition round_half_even :: "rat \<Rightarrow> int" where
  "round_half_even q =
     (let f = \<lfloor>q\<rfloor>; d = q - of_int f
      in if d < 1 / 2 then f else if 1 / 2 < d then f + 1 else if even f then f else f + 1)"

definition py_round2 :: "rat \<Rightarrow> float2" where
  "py_round2 x = Float2 (x < 0) (nat (round_half_even (100 * \<bar>x\<bar>)))"

text \<open>\<^verbatim>\<open>Row = namedtuple('Row', [...])\<close>, the seven fields in the order of the tuple. The
  two annotation values and the citation identifier are kept as the text that \<^verbatim>\<open>str\<close>
  gives for them.\<close>

record Row =
  row_uuid :: string
  row_evidence_source_hash :: string
  row_belief :: float2
  row_pmid :: string
  row_evidence :: string
  row_api :: string
  row_bel :: string

text \<open>
  A \<^verbatim>\<open>BELGraph\<close> as the module reads it: \<^verbatim>\<open>graph.edges(data=True)\<close> is a sequence of
  \<open>(u, v, data)\<close>. The dictionary \<^verbatim>\<open>data\<close> always has the key \<^verbatim>\<open>RELATION\<close>; the entries
  \<^verbatim>\<open>data[CITATION][CITATION_IDENTIFIER]\<close>, \<^verbatim>\<open>data[EVIDENCE]\<close> and \<^verbatim>\<open>data[ANNOTATIONS]\<close>
  are \<open>None\<close> when a key is missing, in which case the subscript raises \<^verbatim>\<open>KeyError\<close>.
\<close>

record edge_data =
  relation :: string
  citation_identifier :: "string option"
  edge_evidence :: "string option"
  annotations :: "(string \<rightharpoonup> string) option"

type_synonym node = string

record BELGraph =
  edges :: "(node \<times> node \<times> edge_data) list"

definition empty_BELGraph :: BELGraph where
  "empty_BELGraph = \<lparr>edges = []\<rparr>"

text \<open>
  The collaborators of the module, taken as parameters: the constructor of
  \<^verbatim>\<open>PybelAssembler\<close> and its method \<^verbatim>\<open>make_model\<close> (either may raise), the serializer
  \<^verbatim>\<open>edge_to_bel(u, v, data, sep, use_identifiers)\<close>, the constant
  \<^verbatim>\<open>pybel.constants.UNQUALIFIED_EDGES\<close>, and \<^verbatim>\<open>run_preassembly\<close> and \<^verbatim>\<open>filter_belief\<close> of
  \<^verbatim>\<open>indra.tools.assemble_corpus\<close>. The assembler reads the statement and leaves it as
  it is.
\<close>

record ('e, 'a, 'p) collaborators =
  PybelAssembler :: "('e, 'a) Statement_scheme list \<Rightarrow> exc + 'p"
  make_model :: "'p \<Rightarrow> exc + BELGraph"
  edge_to_bel :: "node \<Rightarrow> node \<Rightarrow> edge_data \<Rightarrow> string \<Rightarrow> bool \<Rightarrow> string"
  UNQUALIFIED_EDGES :: "string list"
  run_preassembly :: "('e, 'a) Statement_scheme list \<Rightarrow> ('e, 'a) Statement_scheme list"
  filter_belief :: "('e, 'a) Statement_scheme list \<Rightarrow> rat \<Rightarrow> ('e, 'a) Statement_scheme list"

section \<open>Constants of the module\<close>

definition TAB :: string where
  "TAB = [CHR 0x09]"

definition header :: "string list" where
  "header = [''INDRA UUID'', ''Belief'', ''PMID'', ''Evidence'', ''API'',
             ''Subject'', ''Predicate'', ''Object'']"

definition NO_EVIDENCE_TEXT :: string where
  "NO_EVIDENCE_TEXT = ''No evidence text.''"

definition MODIFIED_ASSERTION :: string where
  "MODIFIED_ASSERTION = ''Modified assertion''"

definition TEXT_BLACKLIST :: "string list" where
  "TEXT_BLACKLIST = [NO_EVIDENCE_TEXT, MODIFIED_ASSERTION]"

definition SOURCE_BLACKLIST :: "string list" where
  "SOURCE_BLACKLIST = [''bel'', ''signor'']"

definition SUBSTRING_BLACKLIST :: "string list" where
  "SUBSTRING_BLACKLIST = [''CHEBI'', ''PUBCHEM'', ''act(bp('']"

section \<open>The evidence filter\<close>

text \<open>\<^verbatim>\<open>_keep_evidence\<close>: a chain of \<^verbatim>\<open>and\<close>, whose value is its first falsy operand, or
  its last operand.\<close>

definition priv_keep_evidence :: "'b Evidence_scheme \<Rightarrow> pyval" where
  "priv_keep_evidence e =
     py_and (of_attr (pmid e))
    (py_and (of_attr (ev_text e))
    (py_and (py_not_in (of_attr (ev_text e)) TEXT_BLACKLIST)
    (py_and (of_attr (source_api e))
            (py_not_in (of_attr (source_api e)) SOURCE_BLACKLIST))))"

section \<open>Row extraction\<close>

text \<open>
  The generators are modelled run to their end, as \<^verbatim>\<open>sorted\<close> runs them: \<open>yielded\<close> is
  the sequence of rows produced, \<open>raised\<close> the exception that ended the iteration, if
  any, \<open>after\<close> the statement (or statements) as the run leaves them, and \<open>assembled\<close>
  the arguments of the calls of \<^verbatim>\<open>get_graph_from_statement\<close>, in order.
\<close>

record ('s, 'e, 'a) run =
  after :: 's
  assembled :: "('e, 'a) Statement_scheme list"
  yielded :: "Row list"
  raised :: "exc option"

definition get_graph_from_statement ::
  "('e, 'a, 'p) collaborators \<Rightarrow> ('e, 'a) Statement_scheme \<Rightarrow> exc + BELGraph" where
  "get_graph_from_statement X statement =
     (case PybelAssembler X [statement] of
        Inl e \<Rightarrow> Inl e
      | Inr pba \<Rightarrow>
          (case make_model X pba of
             Inl AttributeError \<Rightarrow> Inr empty_BELGraph
           | Inl e \<Rightarrow> Inl e
           | Inr graph \<Rightarrow> Inr graph))"

definition subscript :: "'v option \<Rightarrow> exc + 'v" where
  "subscript entry = (case entry of None \<Rightarrow> Inl KeyError | Some v \<Rightarrow> Inr v)"

definition blacklisted :: "string \<Rightarrow> bool" where
  "blacklisted bel = list_ex (\<lambda>s. sublist s bel) SUBSTRING_BLACKLIST"

text \<open>The construction of one \<^verbatim>\<open>Row\<close>; the keyword arguments are evaluated in the
  order they are written.\<close>

definition bind_exc :: "exc + 'x \<Rightarrow> ('x \<Rightarrow> exc + 'y) \<Rightarrow> exc + 'y" where
  "bind_exc r f = (case r of Inl e \<Rightarrow> Inl e | Inr v \<Rightarrow> f v)"

definition make_Row :: "('e, 'a) Statement_scheme \<Rightarrow> edge_data \<Rightarrow> string \<Rightarrow> exc + Row" where
  "make_Row statement data bel =
     bind_exc (subscript (annotations data)) (\<lambda>ann.
     bind_exc (subscript (ann ''source_hash'')) (\<lambda>h.
     bind_exc (subscript (citation_identifier data)) (\<lambda>p.
     bind_exc (subscript (edge_evidence data)) (\<lambda>t.
     bind_exc (subscript (ann ''source_api'')) (\<lambda>a.
       Inr \<lparr>row_uuid = uuid statement,
            row_evidence_source_hash = h,
            row_belief = py_round2 (belief statement),
            row_pmid = p,
            row_evidence = t,
            row_api = a,
            row_bel = bel\<rparr>)))))"

text \<open>One pass of the loop body of \<^verbatim>\<open>_get_rows_from_statement\<close>: \<open>Inr None\<close> is
  \<^verbatim>\<open>continue\<close>, \<open>Inr (Some r)\<close> yields \<open>r\<close>.\<close>

definition edge_step ::
  "('e, 'a, 'p) collaborators \<Rightarrow> ('e, 'a) Statement_scheme \<Rightarrow> node \<times> node \<times> edge_data \<Rightarrow> exc + Row option" where
  "edge_step X statement uvd =
     (case uvd of (u, v, data) \<Rightarrow>
        if relation data \<in> set (UNQUALIFIED_EDGES X) then Inr None
        else let bel = edge_to_bel X u v data TAB True
             in if blacklisted bel then Inr None
                else (case make_Row statement data bel of
                        Inl e \<Rightarrow> Inl e
                      | Inr r \<Rightarrow> Inr (Some r)))"

fun edge_loop ::
  "('e, 'a, 'p) collaborators \<Rightarrow> ('e, 'a) Statement_scheme \<Rightarrow> (node \<times> node \<times> edge_data) list
    \<Rightarrow> Row list \<times> exc option" where
  "edge_loop X statement [] = ([], None)"
| "edge_loop X statement (uvd # rest) =
     (case edge_step X statement uvd of
        Inl e \<Rightarrow> ([], Some e)
      | Inr None \<Rightarrow> edge_loop X statement rest
      | Inr (Some r) \<Rightarrow>
          (case edge_loop X statement rest of (rs, x) \<Rightarrow> (r # rs, x)))"

definition priv_get_rows_from_statement ::
  "('e, 'a, 'p) collaborators \<Rightarrow> ('e, 'a) Statement_scheme \<Rightarrow> (('e, 'a) Statement_scheme, 'e, 'a) run" where
  "priv_get_rows_from_statement X statement =
     (case get_graph_from_statement X statement of
        Inl e \<Rightarrow>
          \<lparr>after = statement, assembled = [statement], yielded = [], raised = Some e\<rparr>
      | Inr graph \<Rightarrow>
          (case edge_loop X statement (edges graph) of (rs, x) \<Rightarrow>
             \<lparr>after = statement, assembled = [statement], yielded = rs, raised = x\<rparr>))"

definition get_rows_from_statement ::
  "('e, 'a, 'p) collaborators \<Rightarrow> ('e, 'a) Statement_scheme \<Rightarrow> bool \<Rightarrow> string option
    \<Rightarrow> (('e, 'a) Statement_scheme, 'e, 'a) run" where
  "get_rows_from_statement X statement duplicates keep_only_pmid =
     (let s1 = statement\<lparr>evidence := filter (\<lambda>e. truthy (priv_keep_evidence e)) (evidence statement)\<rparr>
      in if 0 = length (evidence s1)
         then \<lparr>after = s1, assembled = [], yielded = [], raised = None\<rparr>
         else
           let s2 = (case keep_only_pmid of
                       None \<Rightarrow> s1
                     | Some k \<Rightarrow> s1\<lparr>evidence := filter (\<lambda>e. pmid e = Some k) (evidence s1)\<rparr>);
               s3 = (if \<not> duplicates then s2\<lparr>evidence := take 1 (evidence s2)\<rparr> else s2)
           in priv_get_rows_from_statement X s3)"

fun get_rows_from_statements ::
  "('e, 'a, 'p) collaborators \<Rightarrow> ('e, 'a) Statement_scheme list \<Rightarrow> bool \<Rightarrow> string option
    \<Rightarrow> (('e, 'a) Statement_scheme list, 'e, 'a) run" where
  "get_rows_from_statements X [] duplicates keep_only_pmid =
     \<lparr>after = [], assembled = [], yielded = [], raised = None\<rparr>"
| "get_rows_from_statements X (statement # rest) duplicates keep_only_pmid =
     (let r = get_rows_from_statement X statement duplicates keep_only_pmid
      in case raised r of
           Some e \<Rightarrow>
             \<lparr>after = after r # rest, assembled = assembled r, yielded = yielded r,
              raised = Some e\<rparr>
         | None \<Rightarrow>
             (let rs = get_rows_from_statements X rest duplicates keep_only_pmid
              in \<lparr>after = after r # after rs, assembled = assembled r @ assembled rs,
                  yielded = yielded r @ yielded rs, raised = raised rs\<rparr>))"

section \<open>Printing\<close>

text \<open>
  The digits of a natural number, and \<^verbatim>\<open>str\<close> of the float that \<^verbatim>\<open>round(x, 2)\<close> returns:
  the shortest decimal that reads back as that float, with at least one digit after the
  point. For the float nearest to \<open>k / 100\<close> that is the decimal \<open>k / 100\<close> itself, written
  without a zero in the second place (two such decimals are further apart than two
  neighbouring floats as long as the magnitude stays below \<open>10^13\<close>, far above a belief).
\<close>

definition digit :: "nat \<Rightarrow> char" where
  "digit d = ''0123456789'' ! d"

fun str_nat :: "nat \<Rightarrow> string" where
  "str_nat n = (if n < 10 then [digit n] else str_nat (n div 10) @ [digit (n mod 10)])"

definition str_float2 :: "float2 \<Rightarrow> string" where
  "str_float2 x =
     (case x of Float2 neg k \<Rightarrow>
        (if neg then ''-'' else '''') @ str_nat (k div 100) @ ''.'' @
        (if k mod 10 = 0 then [digit (k mod 100 div 10)]
         else [digit (k mod 100 div 10), digit (k mod 10)]))"

text \<open>\<^verbatim>\<open>print(*row, sep=sep, file=file)\<close> writes \<^verbatim>\<open>str\<close> of every field of the tuple, in
  the order of the tuple, with \<open>sep\<close> between them.\<close>

definition row_fields :: "Row \<Rightarrow> string list" where
  "row_fields r =
     [row_uuid r, row_evidence_source_hash r, str_float2 (row_belief r), row_pmid r,
      row_evidence r, row_api r, row_bel r]"

fun join :: "string \<Rightarrow> string list \<Rightarrow> string" where
  "join sep [] = []"
| "join sep [x] = x"
| "join sep (x # y # ys) = x @ sep @ join sep (y # ys)"

definition print_py :: "string list \<Rightarrow> string \<Rightarrow> string" where
  "print_py args sep = join sep args @ [CHR 0x0A]"

text \<open>\<^verbatim>\<open>sep or '\t'\<close> for \<open>sep\<close> of type \<^verbatim>\<open>Optional[str]\<close>.\<close>

definition sep_or_tab :: "string option \<Rightarrow> string" where
  "sep_or_tab sep = (case py_or (of_attr sep) (PyStr TAB) of PyStr s \<Rightarrow> s | _ \<Rightarrow> TAB)"

text \<open>\<^verbatim>\<open>rows[:limit]\<close> for an \<^verbatim>\<open>int\<close>: a negative bound counts from the end.\<close>

definition slice_to :: "'x list \<Rightarrow> int \<Rightarrow> 'x list" where
  "slice_to xs limit =
     (if limit < 0 then take (nat (max 0 (int (length xs) + limit))) xs
      else take (nat limit) xs)"

text \<open>\<^verbatim>\<open>attrgetter('uuid', 'pmid')\<close>, the default of \<^verbatim>\<open>sort_attrs\<close>. \<^verbatim>\<open>sorted\<close> is a stable
  sort by that key; a stable sort has one result only, the one \<open>sort_key\<close> computes.\<close>

definition sort_attrs_key :: "Row \<Rightarrow> string \<times> string" where
  "sort_attrs_key r = (row_uuid r, row_pmid r)"

text \<open>
  \<^verbatim>\<open>print_statements\<close> with \<^verbatim>\<open>sort_attrs\<close> at its default. \<open>written\<close> is what the calls of
  \<^verbatim>\<open>print\<close> wrote to \<^verbatim>\<open>file\<close>, one entry for each call; \<open>selected\<close> is the list \<^verbatim>\<open>rows\<close>
  that the last loop goes through.
\<close>

record ('e, 'a) printed =
  written :: "string list"
  selected :: "Row list"
  extraction :: "(('e, 'a) Statement_scheme list, 'e, 'a) run"

definition print_statements ::
  "('e, 'a, 'p) collaborators \<Rightarrow> ('e, 'a) Statement_scheme list \<Rightarrow> string option \<Rightarrow> int option
    \<Rightarrow> bool \<Rightarrow> string option \<Rightarrow> rat option \<Rightarrow> ('e, 'a) printed" where
  "print_statements X statements sep limit duplicates keep_only_pmid minimum_belief =
     (let sep1 = sep_or_tab sep;
          line0 = print_py header sep1;
          statements1 = run_preassembly X statements;
          statements2 = (case minimum_belief of
                           None \<Rightarrow> statements1
                         | Some m \<Rightarrow> filter_belief X statements1 m);
          r = get_rows_from_statements X statements2 duplicates keep_only_pmid
      in case raised r of
           Some e \<Rightarrow> \<lparr>written = [line0], selected = [], extraction = r\<rparr>
         | None \<Rightarrow>
             (let rows1 = sort_key sort_attrs_key (yielded r);
                  rows2 = (case limit of None \<Rightarrow> rows1 | Some n \<Rightarrow> slice_to rows1 n)
              in \<lparr>written = line0 # map (\<lambda>row. print_py (row_fields row) sep1) rows2,
                  selected = rows2, extraction = r\<rparr>))"

section \<open>Notions used to state the properties\<close>

text \<open>The serialized text of an edge, as the loop computes it.\<close>

definition bel_of :: "('e, 'a, 'p) collaborators \<Rightarrow> node \<times> node \<times> edge_data \<Rightarrow> string" where
  "bel_of X uvd = (case uvd of (u, v, data) \<Rightarrow> edge_to_bel X u v data TAB True)"




section \<open>Sample inputs\<close>

text \<open>A toy assembler: one \<^verbatim>\<open>increases\<close> edge for each evidence of the statement, with the
  evidence's fields as the edge's metadata.\<close>

definition demo_evidence :: Evidence where
  "demo_evidence =
     \<lparr>pmid = Some ''111'', ev_text = Some ''valid text'', source_api = Some ''reach''\<rparr>"

definition demo_evidence_no_pmid :: Evidence where
  "demo_evidence_no_pmid =
     \<lparr>pmid = None, ev_text = Some ''other text'', source_api = Some ''sparser''\<rparr>"

definition demo_evidence_bel :: Evidence where
  "demo_evidence_bel =
     \<lparr>pmid = Some ''222'', ev_text = Some ''curated'', source_api = Some ''bel''\<rparr>"

definition demo_statement :: "unit Statement" where
  "demo_statement =
     \<lparr>uuid = ''X'', belief = 3 / 4, evidence = [demo_evidence_no_pmid, demo_evidence]\<rparr>"

definition demo_statement_unusable :: "unit Statement" where
  "demo_statement_unusable =
     \<lparr>uuid = ''Y'', belief = 1, evidence = [demo_evidence_no_pmid, demo_evidence_bel]\<rparr>"

definition demo_statement_half :: "unit Statement" where
  "demo_statement_half = \<lparr>uuid = ''H'', belief = 1 / 2, evidence = [demo_evidence]\<rparr>"


definition demo_statements :: "unit Statement list" where
  "demo_statements =
     [\<lparr>uuid = ''b'', belief = 1,
       evidence = [\<lparr>pmid = Some ''1'', ev_text = Some ''t1'', source_api = Some ''reach''\<rparr>]\<rparr>,
      \<lparr>uuid = ''a'', belief = 1,
       evidence = [\<lparr>pmid = Some ''2'', ev_text = Some ''t2'', source_api = Some ''reach''\<rparr>,
                   \<lparr>pmid = Some ''1'', ev_text = Some ''t3'', source_api = Some ''sparser''\<rparr>]\<rparr>]"

definition demo_edge :: "Evidence \<Rightarrow> node \<times> node \<times> edge_data" where
  "demo_edge e =
     (''p(HGNC:1)'', ''p(HGNC:2)'',
      \<lparr>relation = ''increases'', citation_identifier = pmid e, edge_evidence = ev_text e,
       annotations = Some (\<lambda>key. if key = ''source_hash'' then Some ''-123''
                               else if key = ''source_api'' then source_api e else None)\<rparr>)"

definition demo_collaborators :: "(unit, unit, unit Statement list) collaborators" where
  "demo_collaborators =
     \<lparr>PybelAssembler = Inr,
      make_model = (\<lambda>stmts. Inr \<lparr>edges = concat (map (\<lambda>s. map demo_edge (evidence s)) stmts)\<rparr>),
      edge_to_bel = (\<lambda>u v data sep use_identifiers. u @ sep @ relation data @ sep @ v),
      UNQUALIFIED_EDGES = [''hasVariant'', ''hasReactant'', ''hasProduct''],
      run_preassembly = (\<lambda>stmts. stmts),
      filter_belief = (\<lambda>stmts m. filter (\<lambda>s. m \<le> belief s) stmts)\<rparr>"




definition demo_fixed :: "exc + BELGraph \<Rightarrow> (unit, unit, unit Statement list) collaborators" where
  "demo_fixed result = demo_collaborators\<lparr>make_model := (\<lambda>stmts. result)\<rparr>"

section \<open>Auxiliary facts\<close>

subsection \<open>Evidence filter and row extraction\<close>

lemma after_priv [simp]: "after (priv_get_rows_from_statement X s) = s"
  by (simp add: priv_get_rows_from_statement_def split: sum.splits prod.splits)

lemma assembled_priv [simp]: "assembled (priv_get_rows_from_statement X s) = [s]"
  by (simp add: priv_get_rows_from_statement_def split: sum.splits prod.splits)











lemma edge_step_Some:
  "edge_step X st uvd = Inr (Some r) \<Longrightarrow> make_Row st (snd (snd uvd)) (bel_of X uvd) = Inr r"
  by (cases uvd) (auto simp: edge_step_def Let_def bel_of_def split: sum.splits if_splits)

lemma edge_loop_origin:
  "r \<in> set (fst (edge_loop X st es)) \<Longrightarrow>
     \<exists>uvd \<in> set es. make_Row st (snd (snd uvd)) (bel_of X uvd) = Inr r"
proof (induction es)
  case Nil
  then show ?case by simp
next
  case (Cons uvd es)
  show ?case
  proof (cases "edge_step X st uvd")
    case (Inl e)
    with Cons.prems show ?thesis by simp
  next
    case (Inr step)
    show ?thesis
    proof (cases step)
      case None
      with Inr Cons show ?thesis by simp
    next
      case (Some r')
      with Inr Cons.prems have "r = r' \<or> r \<in> set (fst (edge_loop X st es))"
        by (auto split: prod.splits)
      then show ?thesis
      proof
        assume "r = r'"
        with Inr Some have "make_Row st (snd (snd uvd)) (bel_of X uvd) = Inr r"
          by (simp add: edge_step_Some)
        then show ?thesis by auto
      next
        assume "r \<in> set (fst (edge_loop X st es))"
        with Cons.IH show ?thesis by auto
      qed
    qed
  qed
qed

lemma make_Row_fields:
  "make_Row st data bel = Inr r \<Longrightarrow>
     row_uuid r = uuid st \<and> row_belief r = py_round2 (belief st) \<and> row_bel r = bel \<and>
     citation_identifier data = Some (row_pmid r) \<and>
     edge_evidence data = Some (row_evidence r) \<and>
     (\<exists>ann. annotations data = Some ann \<and>
        ann ''source_hash'' = Some (row_evidence_source_hash r) \<and>
        ann ''source_api'' = Some (row_api r))"
  by (auto simp: make_Row_def bind_exc_def subscript_def split: option.splits)

subsection \<open>Printing\<close>

lemma sep_or_tab_falsy: "sep = None \<or> sep = Some [] \<Longrightarrow> sep_or_tab sep = TAB"
  by (auto simp: sep_or_tab_def py_or_def of_attr_def)

lemma sep_or_tab_TAB: "sep_or_tab (Some TAB) = TAB"
  by (auto simp: sep_or_tab_def py_or_def of_attr_def TAB_def)

lemma written_eq:
  "written (print_statements X ss sep limit d k mb) =
     print_py header (sep_or_tab sep) #
     map (\<lambda>r. print_py (row_fields r) (sep_or_tab sep))
         (selected (print_statements X ss sep limit d k mb))"
  by (auto simp: print_statements_def Let_def split: option.splits)

lemma extraction_indep:
  "extraction (print_statements X ss sep limit d k mb) =
   extraction (print_statements X ss sep' limit' d k mb)"
  by (auto simp: print_statements_def Let_def split: option.splits)

lemma selected_eq:
  "raised (extraction (print_statements X ss sep limit d k mb)) = None \<Longrightarrow>
   selected (print_statements X ss sep limit d k mb) =
     (let S = sort_key sort_attrs_key
                (yielded (extraction (print_statements X ss sep limit d k mb)))
      in case limit of None \<Rightarrow> S | Some n \<Rightarrow> slice_to S n)"
  by (auto simp: print_statements_def Let_def split: option.splits)

lemma slice_to_nonneg: "0 \<le> n \<Longrightarrow> slice_to xs n = take (min (nat n) (length xs)) xs"
  by (simp add: slice_to_def min_def)

lemma sorted_lex:
  assumes "sorted (map sort_attrs_key S)"
  shows "sorted_wrt (\<lambda>r s. row_uuid r < row_uuid s \<or>
                          row_uuid r = row_uuid s \<and> row_pmid r \<le> row_pmid s) S"
proof -
  from assms have "sorted_wrt (\<lambda>r s. sort_attrs_key r \<le> sort_attrs_key s) S"
    by (simp only: sorted_map)
  moreover have "sort_attrs_key r \<le> sort_attrs_key s \<Longrightarrow>
      row_uuid r < row_uuid s \<or> row_uuid r = row_uuid s \<and> row_pmid r \<le> row_pmid s" for r s
    unfolding sort_attrs_key_def less_eq_prod_def
    by (simp only: fst_conv snd_conv) (metis order.order_iff_strict)
  ultimately show ?thesis
    by (rule sorted_wrt_mono_rel[rotated]) blast
qed

subsection \<open>Rounding and the printed belief\<close>








section \<open>Properties of the evidence filter\<close>

text \<open>
  Claim C1. \<^verbatim>\<open>_keep_evidence\<close> returns \<^verbatim>\<open>True\<close> exactly when the pmid is present and not
  empty, the text is present, not empty and neither \<^verbatim>\<open>No evidence text.\<close> nor
  \<^verbatim>\<open>Modified assertion\<close>, and the source is present, not empty and neither \<^verbatim>\<open>bel\<close> nor
  \<^verbatim>\<open>signor\<close>. In every other case its value is falsy (\<^verbatim>\<open>None\<close>, the empty string or
  \<^verbatim>\<open>False\<close>); no case raises.
\<close>

theorem keep_evidence_true_iff:
  "(priv_keep_evidence e = PyBool True \<longleftrightarrow>
     (\<exists>p t s. pmid e = Some p \<and> p \<noteq> [] \<and>
        ev_text e = Some t \<and> t \<noteq> [] \<and>
        t \<notin> {''No evidence text.'', ''Modified assertion''} \<and>
        source_api e = Some s \<and> s \<noteq> [] \<and> s \<notin> {''bel'', ''signor''})) \<and>
   (truthy (priv_keep_evidence e) \<longleftrightarrow> priv_keep_evidence e = PyBool True) \<and>
   (priv_keep_evidence e = PyBool True \<or> priv_keep_evidence e = PyBool False \<or>
    priv_keep_evidence e = PyNone \<or> priv_keep_evidence e = PyStr [])"
  by (cases "pmid e"; cases "ev_text e"; cases "source_api e")
     (auto simp: priv_keep_evidence_def py_and_def py_not_in_def of_attr_def
        TEXT_BLACKLIST_def SOURCE_BLACKLIST_def NO_EVIDENCE_TEXT_def MODIFIED_ASSERTION_def)

theorem keep_evidence_true_iff_witness:
  "priv_keep_evidence demo_evidence = PyBool True \<and>
   \<not> truthy (priv_keep_evidence demo_evidence_no_pmid) \<and>
   \<not> truthy (priv_keep_evidence demo_evidence_bel)"
  using keep_evidence_true_iff[of demo_evidence]
    keep_evidence_true_iff[of demo_evidence_no_pmid]
    keep_evidence_true_iff[of demo_evidence_bel]
  by (simp add: demo_evidence_def demo_evidence_no_pmid_def demo_evidence_bel_def)

section \<open>Properties of the data line\<close>

text \<open>
  Claim C2, as the code has it. Every data line is the seven fields of the row joined by
  the separator: uuid, evidence source hash, belief, pmid, evidence text, source api,
  serialized edge, in that order; the source hash stands between uuid and belief. The
  fields of an emitted row are the statement's uuid and rounded belief, and the source
  hash annotation, citation identifier, evidence text, source api annotation and
  serialized text of an edge of the statement's graph.
\<close>

theorem data_line_fields:
  assumes "r \<in> set (yielded (priv_get_rows_from_statement X st))"
  shows "print_py (row_fields r) sep =
           join sep [row_uuid r, row_evidence_source_hash r, str_float2 (row_belief r),
                     row_pmid r, row_evidence r, row_api r, row_bel r] @ [CHR 0x0A] \<and>
         (\<exists>g u v data ann.
            get_graph_from_statement X st = Inr g \<and> (u, v, data) \<in> set (edges g) \<and>
            row_uuid r = uuid st \<and>
            annotations data = Some ann \<and>
            ann ''source_hash'' = Some (row_evidence_source_hash r) \<and>
            row_belief r = py_round2 (belief st) \<and>
            citation_identifier data = Some (row_pmid r) \<and>
            edge_evidence data = Some (row_evidence r) \<and>
            ann ''source_api'' = Some (row_api r) \<and>
            row_bel r = edge_to_bel X u v data TAB True) \<and>
         written (print_statements X ss sp limit d k mb) =
           print_py header (sep_or_tab sp) #
           map (\<lambda>row. print_py (row_fields row) (sep_or_tab sp))
               (selected (print_statements X ss sp limit d k mb))"
proof -
  have line: "print_py (row_fields r) sep =
           join sep [row_uuid r, row_evidence_source_hash r, str_float2 (row_belief r),
                     row_pmid r, row_evidence r, row_api r, row_bel r] @ [CHR 0x0A]"
    by (simp add: print_py_def row_fields_def)
  obtain g where g: "get_graph_from_statement X st = Inr g"
    using assms by (cases "get_graph_from_statement X st")
      (auto simp: priv_get_rows_from_statement_def)
  with assms have "r \<in> set (fst (edge_loop X st (edges g)))"
    by (auto simp: priv_get_rows_from_statement_def split: prod.splits)
  then obtain uvd where uvd: "uvd \<in> set (edges g)"
      "make_Row st (snd (snd uvd)) (bel_of X uvd) = Inr r"
    using edge_loop_origin by blast
  obtain u v data where [simp]: "uvd = (u, v, data)" by (cases uvd)
  from make_Row_fields[OF uvd(2)] obtain ann where
    "row_uuid r = uuid st" "row_belief r = py_round2 (belief st)"
    "row_bel r = edge_to_bel X u v data TAB True"
    "citation_identifier data = Some (row_pmid r)"
    "edge_evidence data = Some (row_evidence r)"
    "annotations data = Some ann"
    "ann ''source_hash'' = Some (row_evidence_source_hash r)"
    "ann ''source_api'' = Some (row_api r)"
    by (auto simp: bel_of_def)
  with g uvd(1) have origin: "\<exists>g u v data ann.
            get_graph_from_statement X st = Inr g \<and> (u, v, data) \<in> set (edges g) \<and>
            row_uuid r = uuid st \<and>
            annotations data = Some ann \<and>
            ann ''source_hash'' = Some (row_evidence_source_hash r) \<and>
            row_belief r = py_round2 (belief st) \<and>
            citation_identifier data = Some (row_pmid r) \<and>
            edge_evidence data = Some (row_evidence r) \<and>
            ann ''source_api'' = Some (row_api r) \<and>
            row_bel r = edge_to_bel X u v data TAB True"
    by auto
  from line origin written_eq[of X ss sp limit d k mb] show ?thesis by blast
qed

text \<open>The sample statement, one usable evidence and one edge: the line begins with the
  uuid \<^verbatim>\<open>X\<close>, the source hash \<^verbatim>\<open>-123\<close> and then the belief.\<close>

theorem data_line_fields_witness:
  "hd (yielded (priv_get_rows_from_statement demo_collaborators demo_statement_half))
     \<in> set (yielded (priv_get_rows_from_statement demo_collaborators demo_statement_half)) \<and>
   print_py (row_fields
      (hd (yielded (priv_get_rows_from_statement demo_collaborators demo_statement_half)))) TAB =
     join TAB [''H'', ''-123'', ''0.5'', ''111'', ''valid text'', ''reach'',
               ''p(HGNC:1)'', ''increases'', ''p(HGNC:2)''] @ [CHR 0x0A]"
proof -
  let ?r = "hd (yielded (priv_get_rows_from_statement demo_collaborators demo_statement_half))"
  have h: "?r \<in> set (yielded (priv_get_rows_from_statement demo_collaborators demo_statement_half))"
    by code_simp
  have e: "join TAB [row_uuid ?r, row_evidence_source_hash ?r, str_float2 (row_belief ?r),
                     row_pmid ?r, row_evidence ?r, row_api ?r, row_bel ?r] =
           join TAB [''H'', ''-123'', ''0.5'', ''111'', ''valid text'', ''reach'',
               ''p(HGNC:1)'', ''increases'', ''p(HGNC:2)'']"
    by code_simp
  from data_line_fields[OF h, of TAB] h e show ?thesis by simp
qed

theorem data_line_fields_counterexample:
  "written (print_statements demo_collaborators [demo_statement] None None False None None) ! 1 =
     join TAB [''X'', ''-123'', ''0.75'', ''111'', ''valid text'', ''reach'',
               ''p(HGNC:1)'', ''increases'', ''p(HGNC:2)''] @ [CHR 0x0A] \<and>
   written (print_statements demo_collaborators [demo_statement] None None False None None) ! 1 \<noteq>
     join TAB [''X'', ''0.75'', ''111'', ''valid text'', ''reach'',
               ''p(HGNC:1)'', ''increases'', ''p(HGNC:2)''] @ [CHR 0x0A]"
  by code_simp

section \<open>Properties of row extraction\<close>

text \<open>
  Claim C3. When no evidence of the statement passes the evidence filter,
  \<^verbatim>\<open>get_rows_from_statement\<close> yields no row, raises nothing, and never calls
  \<^verbatim>\<open>get_graph_from_statement\<close> (so neither \<^verbatim>\<open>PybelAssembler\<close>), whatever \<^verbatim>\<open>duplicates\<close> and
  \<^verbatim>\<open>keep_only_pmid\<close> are.
\<close>

theorem no_rows_without_kept_evidence:
  assumes "filter (\<lambda>e. truthy (priv_keep_evidence e)) (evidence st) = []"
  shows "yielded (get_rows_from_statement X st d k) = [] \<and>
         assembled (get_rows_from_statement X st d k) = [] \<and>
         raised (get_rows_from_statement X st d k) = None \<and>
         after (get_rows_from_statement X st d k) = st\<lparr>evidence := []\<rparr>"
  using assms by (simp add: get_rows_from_statement_def)

theorem no_rows_without_kept_evidence_witness:
  "filter (\<lambda>e. truthy (priv_keep_evidence e)) (evidence demo_statement_unusable) = [] \<and>
   yielded (get_rows_from_statement demo_collaborators demo_statement_unusable True None) = [] \<and>
   assembled (get_rows_from_statement demo_collaborators demo_statement_unusable True None) = [] \<and>
   raised (get_rows_from_statement demo_collaborators demo_statement_unusable True None) = None"
proof -
  have h: "filter (\<lambda>e. truthy (priv_keep_evidence e)) (evidence demo_statement_unusable) = []"
    by code_simp
  from no_rows_without_kept_evidence[OF h, of demo_collaborators True None] h
  show ?thesis by simp
qed

text \<open>
  Claim C4. \<^verbatim>\<open>get_rows_from_statement\<close> changes the evidence of the statement and nothing
  else: uuid, belief and every other attribute stay as they were. With
  \<^verbatim>\<open>duplicates=False\<close> the evidence list is afterwards the first entry, if any, of the
  evidences that pass the evidence filter and then the \<^verbatim>\<open>keep_only_pmid\<close> filter, so it
  has at most one entry; the graph is assembled from the statement in that state, and
  the rows are those of that graph.
\<close>

theorem get_rows_from_statement_frame:
  "after (get_rows_from_statement X st d k) =
     st\<lparr>evidence := evidence (after (get_rows_from_statement X st d k))\<rparr> \<and>
   uuid (after (get_rows_from_statement X st d k)) = uuid st \<and>
   belief (after (get_rows_from_statement X st d k)) = belief st \<and>
   Statement.more (after (get_rows_from_statement X st d k)) = Statement.more st \<and>
   evidence (after (get_rows_from_statement X st False k)) =
     take 1 (case k of
               None \<Rightarrow> filter (\<lambda>e. truthy (priv_keep_evidence e)) (evidence st)
             | Some p \<Rightarrow> filter (\<lambda>e. pmid e = Some p)
                          (filter (\<lambda>e. truthy (priv_keep_evidence e)) (evidence st))) \<and>
   length (evidence (after (get_rows_from_statement X st False k))) \<le> 1 \<and>
   assembled (get_rows_from_statement X st False k) =
     (if filter (\<lambda>e. truthy (priv_keep_evidence e)) (evidence st) = [] then []
      else [after (get_rows_from_statement X st False k)]) \<and>
   yielded (get_rows_from_statement X st False k) =
     (if filter (\<lambda>e. truthy (priv_keep_evidence e)) (evidence st) = [] then []
      else yielded (priv_get_rows_from_statement X
             (after (get_rows_from_statement X st False k))))"
  by (auto simp: get_rows_from_statement_def Let_def split: option.splits)

theorem get_rows_from_statement_frame_witness:
  "after (get_rows_from_statement demo_collaborators demo_statement False None) =
     demo_statement\<lparr>evidence := [demo_evidence]\<rparr> \<and>
   assembled (get_rows_from_statement demo_collaborators demo_statement False None) =
     [demo_statement\<lparr>evidence := [demo_evidence]\<rparr>]"
proof -
  have e: "take 1 (filter (\<lambda>e. truthy (priv_keep_evidence e)) (evidence demo_statement)) =
           [demo_evidence]"
    by code_simp
  then have n: "filter (\<lambda>e. truthy (priv_keep_evidence e)) (evidence demo_statement) \<noteq> []"
    by auto
  from get_rows_from_statement_frame[of demo_collaborators demo_statement False None] e n
  show ?thesis by (simp split: if_splits)
qed





section \<open>Properties of graph assembly\<close>

text \<open>
  Claim C7. When \<^verbatim>\<open>make_model\<close> raises \<^verbatim>\<open>AttributeError\<close>,
  \<^verbatim>\<open>get_graph_from_statement\<close> returns an empty graph, so the statement gives no rows and
  nothing is raised; when \<^verbatim>\<open>make_model\<close> raises any other exception, that exception is
  what \<^verbatim>\<open>get_graph_from_statement\<close> and the row generator raise.
\<close>

theorem get_graph_attribute_error:
  assumes "PybelAssembler X [st] = Inr pba"
  shows "(make_model X pba = Inl AttributeError \<longrightarrow>
            get_graph_from_statement X st = Inr empty_BELGraph \<and>
            edges empty_BELGraph = [] \<and>
            yielded (priv_get_rows_from_statement X st) = [] \<and>
            raised (priv_get_rows_from_statement X st) = None) \<and>
         (\<forall>e. e \<noteq> AttributeError \<longrightarrow> make_model X pba = Inl e \<longrightarrow>
            get_graph_from_statement X st = Inl e \<and>
            yielded (priv_get_rows_from_statement X st) = [] \<and>
            raised (priv_get_rows_from_statement X st) = Some e)"
  using assms
  by (auto simp: get_graph_from_statement_def priv_get_rows_from_statement_def
        empty_BELGraph_def split: exc.splits)

theorem get_graph_attribute_error_witness:
  "PybelAssembler (demo_fixed (Inl AttributeError)) [demo_statement_half] =
     Inr [demo_statement_half] \<and>
   get_graph_from_statement (demo_fixed (Inl AttributeError)) demo_statement_half =
     Inr empty_BELGraph \<and>
   raised (priv_get_rows_from_statement (demo_fixed (Inl AttributeError)) demo_statement_half) =
     None \<and>
   PybelAssembler (demo_fixed (Inl KeyError)) [demo_statement_half] =
     Inr [demo_statement_half] \<and>
   raised (priv_get_rows_from_statement (demo_fixed (Inl KeyError)) demo_statement_half) =
     Some KeyError"
proof -
  have h1: "PybelAssembler (demo_fixed (Inl AttributeError)) [demo_statement_half] =
            Inr [demo_statement_half]"
    by (simp add: demo_fixed_def demo_collaborators_def)
  have m1: "make_model (demo_fixed (Inl AttributeError)) [demo_statement_half] =
            Inl AttributeError"
    by (simp add: demo_fixed_def)
  have h2: "PybelAssembler (demo_fixed (Inl KeyError)) [demo_statement_half] =
            Inr [demo_statement_half]"
    by (simp add: demo_fixed_def demo_collaborators_def)
  have m2: "make_model (demo_fixed (Inl KeyError)) [demo_statement_half] = Inl KeyError"
    by (simp add: demo_fixed_def)
  from get_graph_attribute_error[OF h1] get_graph_attribute_error[OF h2] h1 h2 m1 m2
  show ?thesis by simp
qed

section \<open>Properties of sorting, limiting and writing\<close>

text \<open>
  Claim C6. When row extraction raises nothing, the rows that \<^verbatim>\<open>print_statements\<close> goes
  through without a limit are the aggregated rows in a stable ascending order of the
  pair (uuid, pmid), compared lexicographically: a rearrangement of the aggregated rows,
  sorted by uuid and then by pmid, in which rows with the same key keep their order.
  With a limit \<open>N \<ge> 0\<close> the rows written after the header are exactly the first
  \<open>min N total\<close> rows of that sorted sequence.
\<close>

theorem print_statements_sorted_limited:
  assumes "raised (extraction (print_statements X ss sep None d k mb)) = None"
  shows "\<exists>S. mset S = mset (yielded (extraction (print_statements X ss sep None d k mb))) \<and>
     sorted_wrt (\<lambda>r s. row_uuid r < row_uuid s \<or>
                       row_uuid r = row_uuid s \<and> row_pmid r \<le> row_pmid s) S \<and>
     (\<forall>key. filter (\<lambda>r. sort_attrs_key r = key) S =
            filter (\<lambda>r. sort_attrs_key r = key)
              (yielded (extraction (print_statements X ss sep None d k mb)))) \<and>
     selected (print_statements X ss sep None d k mb) = S \<and>
     (\<forall>N\<ge>0.
        selected (print_statements X ss sep (Some N) d k mb) =
          take (min (nat N) (length S)) S \<and>
        written (print_statements X ss sep (Some N) d k mb) =
          print_py header (sep_or_tab sep) #
          map (\<lambda>r. print_py (row_fields r) (sep_or_tab sep))
              (take (min (nat N) (length S)) S))"
proof -
  let ?rows = "yielded (extraction (print_statements X ss sep None d k mb))"
  let ?S = "sort_key sort_attrs_key ?rows"
  have ex: "extraction (print_statements X ss sep (Some N) d k mb) =
            extraction (print_statements X ss sep None d k mb)" for N
    by (rule extraction_indep)
  have 1: "mset ?S = mset ?rows" by simp
  have 2: "sorted_wrt (\<lambda>r s. row_uuid r < row_uuid s \<or>
                       row_uuid r = row_uuid s \<and> row_pmid r \<le> row_pmid s) ?S"
    by (rule sorted_lex) (rule sorted_sort_key)
  have 3: "\<forall>key. filter (\<lambda>r. sort_attrs_key r = key) ?S =
                 filter (\<lambda>r. sort_attrs_key r = key) ?rows"
    by (simp add: sort_key_stable)
  have 4: "selected (print_statements X ss sep None d k mb) = ?S"
    using selected_eq[OF assms] by (simp only: Let_def option.case)
  have 5: "selected (print_statements X ss sep (Some N) d k mb) =
           take (min (nat N) (length ?S)) ?S" if "0 \<le> N" for N
    using assms that selected_eq[of X ss sep "Some N" d k mb]
    by (simp only: ex Let_def option.case slice_to_nonneg)
  have 6: "written (print_statements X ss sep (Some N) d k mb) =
          print_py header (sep_or_tab sep) #
          map (\<lambda>r. print_py (row_fields r) (sep_or_tab sep))
              (take (min (nat N) (length ?S)) ?S)" if "0 \<le> N" for N
    using written_eq[of X ss sep "Some N" d k mb] 5[OF that] by (simp only:)
  from 1 2 3 4 5 6 show ?thesis by blast
qed

text \<open>Rows with uuids \<^verbatim>\<open>b\<close>, \<^verbatim>\<open>a\<close>, \<^verbatim>\<open>a\<close> and pmids \<^verbatim>\<open>1\<close>, \<^verbatim>\<open>2\<close>, \<^verbatim>\<open>1\<close>: sorted they are
  (a, 1), (a, 2), (b, 1), and a limit of 2 keeps the first two.\<close>

theorem print_statements_sorted_limited_witness:
  "raised (extraction (print_statements demo_collaborators demo_statements None None True
                         None None)) = None \<and>
   map sort_attrs_key (yielded (extraction (print_statements demo_collaborators demo_statements
                         None None True None None))) =
     [(''b'', ''1''), (''a'', ''2''), (''a'', ''1'')] \<and>
   map sort_attrs_key (selected (print_statements demo_collaborators demo_statements
                         None None True None None)) =
     [(''a'', ''1''), (''a'', ''2''), (''b'', ''1'')] \<and>
   map sort_attrs_key (selected (print_statements demo_collaborators demo_statements
                         None (Some 2) True None None)) =
     [(''a'', ''1''), (''a'', ''2'')]"
proof -
  have h: "raised (extraction (print_statements demo_collaborators demo_statements None None
                                 True None None)) = None"
    by code_simp
  have y: "map sort_attrs_key (yielded (extraction (print_statements demo_collaborators
              demo_statements None None True None None))) =
           [(''b'', ''1''), (''a'', ''2''), (''a'', ''1'')]"
    by code_simp
  have s: "map sort_attrs_key (selected (print_statements demo_collaborators demo_statements
                         None None True None None)) =
           [(''a'', ''1''), (''a'', ''2''), (''b'', ''1'')]"
    by code_simp
  from print_statements_sorted_limited[OF h] obtain S where
    S: "selected (print_statements demo_collaborators demo_statements None None True
                    None None) = S"
    and lim: "\<forall>N\<ge>0. selected (print_statements demo_collaborators demo_statements None
                              (Some N) True None None) = take (min (nat N) (length S)) S"
    by blast
  from s S have len: "length S = 3"
    by (metis length_map length_Cons list.size(3) numeral_3_eq_3)
  from lim have "selected (print_statements demo_collaborators demo_statements None
                              (Some 2) True None None) = take (min (nat 2) (length S)) S"
    by simp
  with len have "selected (print_statements demo_collaborators demo_statements None
                              (Some 2) True None None) = take 2 S"
    by simp
  then have "map sort_attrs_key (selected (print_statements demo_collaborators demo_statements
                         None (Some 2) True None None)) = take 2 (map sort_attrs_key S)"
    by (simp add: take_map)
  with s S have "map sort_attrs_key (selected (print_statements demo_collaborators
                         demo_statements None (Some 2) True None None)) =
                 [(''a'', ''1''), (''a'', ''2'')]"
    by simp
  with h y s show ?thesis by simp
qed

text \<open>
  Claim C9. When \<^verbatim>\<open>sep\<close> is \<^verbatim>\<open>None\<close> or the empty string, \<^verbatim>\<open>print_statements\<close> does
  what it does for a tab: the header line is the eight column names joined by tabs, and
  every data line is the fields of its row joined by tabs.
\<close>

theorem falsy_sep_is_tab:
  assumes "sep = None \<or> sep = Some []"
  shows "print_statements X ss sep limit d k mb =
           print_statements X ss (Some TAB) limit d k mb \<and>
         written (print_statements X ss sep limit d k mb) =
           (join TAB header @ [CHR 0x0A]) #
           map (\<lambda>r. join TAB (row_fields r) @ [CHR 0x0A])
               (selected (print_statements X ss sep limit d k mb))"
proof -
  have t: "sep_or_tab sep = TAB"
    using assms by (rule sep_or_tab_falsy)
  have "print_statements X ss sep limit d k mb =
        print_statements X ss (Some TAB) limit d k mb"
    by (simp add: print_statements_def t sep_or_tab_TAB)
  moreover have "written (print_statements X ss sep limit d k mb) =
           (join TAB header @ [CHR 0x0A]) #
           map (\<lambda>r. join TAB (row_fields r) @ [CHR 0x0A])
               (selected (print_statements X ss sep limit d k mb))"
    using written_eq[of X ss sep limit d k mb] by (simp add: t print_py_def)
  ultimately show ?thesis by blast
qed

theorem falsy_sep_is_tab_witness:
  "print_statements demo_collaborators [demo_statement] (Some []) None False None None =
     print_statements demo_collaborators [demo_statement] (Some TAB) None False None None \<and>
   print_statements demo_collaborators [demo_statement] None None False None None =
     print_statements demo_collaborators [demo_statement] (Some TAB) None False None None \<and>
   hd (written (print_statements demo_collaborators [demo_statement] (Some []) None False
                  None None)) =
     join TAB header @ [CHR 0x0A]"
proof -
  have h1: "Some [] = None \<or> Some [] = Some ([] :: string)" by simp
  have h2: "None = None \<or> None = Some ([] :: string)" by simp
  note a = falsy_sep_is_tab[OF h1, of demo_collaborators "[demo_statement]" None False None None]
  note b = falsy_sep_is_tab[OF h2, of demo_collaborators "[demo_statement]" None False None None]
  from a[THEN conjunct2] have "hd (written (print_statements demo_collaborators [demo_statement] (Some []) None
                  False None None)) = join TAB header @ [CHR 0x0A]"
    by (simp only: list.sel)
  with a b show ?thesis by blast
qed

section \<open>Properties of the belief field\<close>





end
